theory Spec2Isabelle
  imports Main "HOL-Library.Word"
begin

section \<open>Go values used by gossip.go\<close>

text \<open>Go's \<open>int\<close> on a 64-bit platform: addition wraps, comparison is signed (\<open>sint\<close>).\<close>

type_synonym int64 = "64 word"

text \<open>
  Error values. The named constructors are the sentinel errors the code compares with
  \<open>==\<close>; \<open>Errorf\<close> is an error made on the spot by \<open>fmt.Errorf\<close> with its message;
  \<open>ExtErr\<close> is an error produced by a collaborator (codec, transport, script engine).
\<close>

datatype error =
    ErrNotFound
  | ErrTxNotWritable
  | NumErrSyntax
  | NumErrRange
  | ErrDHTErrNoGossipersAvailable
  | ErrDHTExpectedGossipReqInBody
  | ErrNoSuchIdx
  | ValidationFailedErr
  | Errorf string
  | ExtErr string

datatype panic = IndexOutOfRange | TypeAssertion | NilPointer

subsection \<open>Decimal text: \<open>fmt.Sprintf("%d", i)\<close> and \<open>strconv.Atoi\<close>\<close>

definition digit_char :: "nat \<Rightarrow> char" where
  "digit_char d = ''0123456789'' ! d"

fun nat_dec :: "nat \<Rightarrow> string" where
  "nat_dec n = (if n < 10 then [digit_char n] else nat_dec (n div 10) @ [digit_char (n mod 10)])"

declare nat_dec.simps [simp del]

definition Sprintf_d :: "int64 \<Rightarrow> string" where
  "Sprintf_d i = (if sint i < 0 then CHR ''-'' # nat_dec (nat (- sint i)) else nat_dec (nat (sint i)))"

text \<open>\<open>ch -= '0'; if ch > 9 { syntax error }\<close> on a byte.\<close>

definition digit_of :: "char \<Rightarrow> nat option" where
  "digit_of c = (if (of_char c :: nat) < 48 \<or> 57 < (of_char c :: nat) then None
                 else Some (of_char c - 48))"

text \<open>
  The digits of an unsigned number, as \<open>strconv.ParseUint\<close> reads them in base 10: a
  character that is not a digit is a syntax error, and reading stops with a range error
  as soon as the value no longer fits 64 bits, before the rest of the text is looked at.
\<close>

fun parse_digits :: "string \<Rightarrow> nat \<Rightarrow> error + nat" where
  "parse_digits [] n = Inr n"
| "parse_digits (c # cs) n =
     (case digit_of c of
        None \<Rightarrow> Inl NumErrSyntax
      | Some d \<Rightarrow> if 2 ^ 64 \<le> n * 10 + d then Inl NumErrRange else parse_digits cs (n * 10 + d))"

text \<open>
  \<open>strconv.Atoi\<close>: an optional sign, then at least one decimal digit. A syntax error
  yields 0, a value outside the signed 64-bit range yields the nearest bound; both come
  with an error.
\<close>

definition Atoi :: "string \<Rightarrow> int64 \<times> error option" where
  "Atoi s =
     (if s = [] then (0, Some NumErrSyntax)
      else
        let neg = (hd s = CHR ''-'');
            body = (if hd s = CHR ''-'' \<or> hd s = CHR ''+'' then tl s else s)
        in if body = [] then (0, Some NumErrSyntax)
           else (case parse_digits body 0 of
                   Inl e \<Rightarrow>
                     if e = NumErrRange
                     then (if neg then word_of_int (- (2 ^ 63)) else word_of_int (2 ^ 63 - 1), Some NumErrRange)
                     else (0, Some e)
                 | Inr n \<Rightarrow>
                     if \<not> neg \<and> 2 ^ 63 \<le> n then (word_of_int (2 ^ 63 - 1), Some NumErrRange)
                     else if neg \<and> 2 ^ 63 < n then (word_of_int (- (2 ^ 63)), Some NumErrRange)
                     else (if neg then word_of_int (- int n) else word_of_int (int n), None)))"

section \<open>The keyed store\<close>

text \<open>
  The store maps string keys to string values. A transaction carries the data it sees and
  whether it may write; \<open>View\<close> runs a read-only transaction, \<open>Update\<close> a writable one
  that is committed when the function returns no error and rolled back otherwise. The
  database is open and no entry expires.
\<close>

type_synonym store = "string \<rightharpoonup> string"

record Tx =
  writable :: bool
  data :: store

definition tx_Get :: "Tx \<Rightarrow> string \<Rightarrow> string \<times> error option" where
  "tx_Get tx key = (case data tx key of None \<Rightarrow> ([], Some ErrNotFound) | Some v \<Rightarrow> (v, None))"

definition tx_Set :: "Tx \<Rightarrow> string \<Rightarrow> string \<Rightarrow> Tx \<times> error option" where
  "tx_Set tx key v =
     (if writable tx then (tx\<lparr>data := (data tx)(key \<mapsto> v)\<rparr>, None)
      else (tx, Some ErrTxNotWritable))"

definition View :: "store \<Rightarrow> (Tx \<Rightarrow> 'a) \<Rightarrow> 'a" where
  "View d fn = fn \<lparr>writable = False, data = d\<rparr>"

definition Update :: "store \<Rightarrow> (Tx \<Rightarrow> Tx \<times> error option) \<Rightarrow> store \<times> error option" where
  "Update d fn =
     (case fn \<lparr>writable = True, data = d\<rparr> of
        (tx', None) \<Rightarrow> (data tx', None)
      | (tx', Some e) \<Rightarrow> (d, Some e))"

section \<open>Messages, hashes and peers\<close>

text \<open>A hash and a peer identifier are represented by their base-58 text.\<close>

datatype Hash = B58Hash string

fun Hash_String :: "Hash \<Rightarrow> string" where
  "Hash_String (B58Hash s) = s"

datatype PeerID = B58Peer string

fun IDB58Encode :: "PeerID \<Rightarrow> string" where
  "IDB58Encode (B58Peer s) = s"

record GossipReq =
  MyIdx :: int64
  YourIdx :: int64

datatype MsgType = GOSSIP_REQUEST | OtherMsgType int64

datatype Body = BodyNil | BodyGossipReq GossipReq | BodyOther string

record Message =
  From :: PeerID
  Type :: MsgType
  Body :: Body
  Time :: nat

definition zero_Message :: Message where
  "zero_Message = \<lparr>From = B58Peer [], Type = OtherMsgType 0, Body = BodyNil, Time = 0\<rparr>"

record Put =
  idx :: int64
  M :: Message

record Gossip =
  Puts :: "Put list"

section \<open>The change log\<close>

text \<open>\<open>getIntVal\<close>: the integer at a key, 0 when the key does not exist.\<close>

definition getIntVal :: "string \<Rightarrow> Tx \<Rightarrow> int64 \<times> error option" where
  "getIntVal key tx =
     (case tx_Get tx key of
        (val, Some e) \<Rightarrow> (if e = ErrNotFound then (0, None) else (0, Some e))
      | (val, None) \<Rightarrow> Atoi val)"

definition GetIdx :: "store \<Rightarrow> int64 \<times> error option" where
  "GetIdx d = View d (\<lambda>tx. getIntVal ''_idx'' tx)"

text \<open>
  \<open>ByteDecoder(b, &msg)\<close> decodes into a message that already exists: it is given the
  target and returns the target as decoding left it, with the error if any.
\<close>

type_synonym decoder = "string \<Rightarrow> Message \<Rightarrow> Message \<times> error option"

text \<open>
  \<open>GetIdxMessage\<close>. After decoding, the closure tests the result variable \<open>err\<close> of the
  enclosing function, which is still nil while the closure runs, and not the decoder's
  error \<open>e\<close>; so the closure returns nil whatever \<open>e\<close> is.
\<close>

definition GetIdxMessage :: "decoder \<Rightarrow> store \<Rightarrow> int64 \<Rightarrow> Message \<times> error option" where
  "GetIdxMessage dec d i =
     (let msg = zero_Message; err = (None :: error option)
      in View d (\<lambda>tx.
           case tx_Get tx (''idx:'' @ Sprintf_d i) of
             (msgStr, Some e) \<Rightarrow> (if e = ErrNotFound then (msg, Some ErrNoSuchIdx) else (msg, Some e))
           | (msgStr, None) \<Rightarrow>
               (case dec msgStr msg of
                  (msg', e) \<Rightarrow> if err \<noteq> None then (msg', e) else (msg', None))))"

section \<open>The peer cursor table\<close>

definition GetGossiper :: "store \<Rightarrow> PeerID \<Rightarrow> int64 \<times> error option" where
  "GetGossiper d pid = (let key = ''peer:'' @ IDB58Encode pid in View d (\<lambda>tx. getIntVal key tx))"

text \<open>
  What gossip.go takes from the rest of the system, as parameters: the message codec
  (\<open>ByteEncoder\<close>, \<open>ByteDecoder\<close>), \<open>Message.Fingerprint\<close>, the records that
  \<open>tx.AscendGreaterOrEqual("idx", string(since), cb)\<close> presents to its callback, in order
  (or the error it returns without calling it), \<open>ActionReceiver\<close> (which may write to the
  store; its results are only logged), the transport's \<open>Send\<close> for a gossip request, and
  the addresses the peer store knows for a peer.
\<close>

datatype Response = RespNil | RespGossip Gossip | RespOther string

record Env =
  ByteEncoder :: "Message \<Rightarrow> string \<times> error option"
  ByteDecoder :: decoder
  Fingerprint :: "Message \<Rightarrow> Hash \<times> error option"
  AscendIdx :: "int64 \<Rightarrow> store \<Rightarrow> error + (string \<times> string) list"
  ActionReceiver :: "Message \<Rightarrow> store \<Rightarrow> store \<times> string \<times> error option"
  Send :: "PeerID \<Rightarrow> GossipReq \<Rightarrow> Response \<times> error option"
  PeerAddrs :: "PeerID \<Rightarrow> string list"

text \<open>\<open>incIdx\<close> adds a new index record for a message, inside the caller's transaction.\<close>

definition incIdx :: "Env \<Rightarrow> Tx \<Rightarrow> Message option \<Rightarrow> Tx \<times> string \<times> error option" where
  "incIdx env tx m =
     (case m of
        None \<Rightarrow> (tx, [], None)
      | Some msg \<Rightarrow>
          (case getIntVal ''_idx'' tx of
             (i, Some e) \<Rightarrow> (tx, [], Some e)
           | (i, None) \<Rightarrow>
               (let index = Sprintf_d (i + 1) in
                case tx_Set tx ''_idx'' index of
                  (tx1, Some e) \<Rightarrow> (tx1, index, Some e)
                | (tx1, None) \<Rightarrow>
                    (case ByteEncoder env msg of
                       (b, Some e) \<Rightarrow> (tx1, index, Some e)
                     | (b, None) \<Rightarrow>
                         (case tx_Set tx1 (''idx:'' @ index) b of
                            (tx2, Some e) \<Rightarrow> (tx2, index, Some e)
                          | (tx2, None) \<Rightarrow>
                              (case Fingerprint env msg of
                                 (f, Some e) \<Rightarrow> (tx2, index, Some e)
                               | (f, None) \<Rightarrow>
                                   (case tx_Set tx2 (''f:'' @ Hash_String f) index of
                                      (tx3, err) \<Rightarrow> (tx3, index, err))))))))"

text \<open>\<open>GetFingerprint\<close>: the index recorded for a fingerprint, -1 when there is none.\<close>

definition GetFingerprint :: "store \<Rightarrow> Hash \<Rightarrow> int64 \<times> error option" where
  "GetFingerprint d f =
     View d (\<lambda>tx.
       case tx_Get tx (''f:'' @ Hash_String f) of
         (idxStr, Some e) \<Rightarrow> (if e = ErrNotFound then (- 1, None) else (- 1, Some e))
       | (idxStr, None) \<Rightarrow> Atoi idxStr)"

definition HaveFingerprint :: "store \<Rightarrow> Hash \<Rightarrow> bool \<times> error option" where
  "HaveFingerprint d f =
     (case GetFingerprint d f of
        (index, None) \<Rightarrow> (0 \<le> sint index, None)
      | (index, Some e) \<Rightarrow> (False, Some e))"

subsection \<open>\<open>GetPuts\<close>\<close>

text \<open>\<open>strings.Split(s, sep)\<close> for a separator of one character.\<close>

fun Split :: "string \<Rightarrow> char \<Rightarrow> string list" where
  "Split [] sep = [Nil]"
| "Split (c # cs) sep =
     (if c = sep then [] # Split cs sep
      else (case Split cs sep of [] \<Rightarrow> [c] # Nil | w # ws \<Rightarrow> (c # w) # ws))"

text \<open>
  The callback \<open>GetPuts\<close> hands to the scan, on the puts collected so far: the new list
  and whether the scan goes on. \<open>x[1]\<close> panics when the key has no colon. The decoder's
  error lives in a variable of the callback's own (\<open>err := ByteDecoder(...)\<close>): the
  callback answers false and the error goes no further.
\<close>

definition GetPuts_cb :: "decoder \<Rightarrow> int64 \<Rightarrow> string \<Rightarrow> string \<Rightarrow> Put list \<Rightarrow> panic + (Put list \<times> bool)" where
  "GetPuts_cb dec since key val puts =
     (let x = Split key CHR '':'' in
      if length x \<le> 1 then Inl IndexOutOfRange
      else
        let i = fst (Atoi (x ! 1)) in
        if sint since \<le> sint i then
          (let p = \<lparr>idx = i, M = zero_Message\<rparr> in
           if val \<noteq> [] then
             (case dec val (M p) of
                (m', Some e) \<Rightarrow> Inr (puts, False)
              | (m', None) \<Rightarrow> Inr (puts @ [p\<lparr>M := m'\<rparr>], True))
           else Inr (puts @ [p], True))
        else Inr (puts, True))"

text \<open>The store's iteration: the callback is called on each record until it answers false.\<close>

fun ascend :: "(string \<Rightarrow> string \<Rightarrow> 'a \<Rightarrow> panic + ('a \<times> bool)) \<Rightarrow> (string \<times> string) list \<Rightarrow> 'a \<Rightarrow> panic + 'a" where
  "ascend cb [] acc = Inr acc"
| "ascend cb ((key, val) # rest) acc =
     (case cb key val acc of
        Inl p \<Rightarrow> Inl p
      | Inr (acc', goon) \<Rightarrow> if goon then ascend cb rest acc' else Inr acc')"

text \<open>
  \<open>sort.Slice(puts, func(i, j) bool { return puts[i].idx < puts[j].idx })\<close>. Go's sort
  is not stable; the order it leaves among puts of equal \<open>idx\<close> is not specified, and
  nothing below depends on it.
\<close>

definition sort_Slice :: "Put list \<Rightarrow> Put list" where
  "sort_Slice puts = sort_key (\<lambda>p. sint (idx p)) puts"

definition GetPuts :: "Env \<Rightarrow> store \<Rightarrow> int64 \<Rightarrow> panic + (Put list \<times> error option)" where
  "GetPuts env d since =
     (case AscendIdx env since d of
        Inl e \<Rightarrow> Inr (sort_Slice [], Some e)
      | Inr items \<Rightarrow>
          (case ascend (GetPuts_cb (ByteDecoder env) since) items [] of
             Inl p \<Rightarrow> Inl p
           | Inr puts \<Rightarrow> Inr (sort_Slice puts, None)))"

text \<open>
  Modelled from the spec: the index \<open>idx\<close> that \<open>GetPuts\<close> scans is declared outside these
  files, over the keys \<open>idx:*\<close>. A scan of it presents records of the store whose keys
  begin with \<open>idx:\<close> ("range scan under prefix \<open>idx:\<close>"); nothing is assumed about
  which of them it presents, nor in which order.
\<close>

definition idx_scan_ok :: "Env \<Rightarrow> bool" where
  "idx_scan_ok env =
     (\<forall>since d items. AscendIdx env since d = Inr items \<longrightarrow>
        (\<forall>(k, v) \<in> set items. d k = Some v \<and> take 4 k = ''idx:''))"

section \<open>The gossip engine\<close>

text \<open>A call of \<open>glog.Logf\<close>: the format and its arguments.\<close>

datatype LogArg =
    AInt int64
  | APeer PeerID
  | AHash Hash
  | AErr "error option"
  | AMsg Message
  | APut Put
  | APuts "Put list"
  | AStr string
  | AAddrs "string list"

datatype LogEntry = LogLine string "LogArg list"

text \<open>
  The state of a node's DHT that gossip.go reads and writes: the store, the table of peers
  being gossiped with, the channel of gossip-with requests, the gossip log, and the
  requests handed to the transport so far.
\<close>

record DHT =
  db :: store
  gossips :: "PeerID \<rightharpoonup> bool"
  gchan :: "PeerID list"
  glog :: "LogEntry list"
  sent :: "(PeerID \<times> GossipReq) list"

definition Logf :: "DHT \<Rightarrow> string \<Rightarrow> LogArg list \<Rightarrow> DHT" where
  "Logf dht fmt args = dht\<lparr>glog := glog dht @ [LogLine fmt args]\<rparr>"

text \<open>\<open>UpdateGossiper\<close>: a new index lower than the stored one leaves the record as it is.\<close>

definition UpdateGossiper :: "DHT \<Rightarrow> PeerID \<Rightarrow> int64 \<Rightarrow> DHT \<times> error option" where
  "UpdateGossiper dht pid newIdx =
     (let dht1 = Logf dht ''updaing %v to %d'' [APeer pid, AInt newIdx] in
      case Update (db dht1) (\<lambda>tx.
             let key = ''peer:'' @ IDB58Encode pid in
             case getIntVal key tx of
               (i, Some e) \<Rightarrow> (tx, Some e)
             | (i, None) \<Rightarrow>
                 if sint newIdx < sint i then (tx, None)
                 else tx_Set tx key (Sprintf_d newIdx)) of
        (d', err) \<Rightarrow> (dht1\<lparr>db := d'\<rparr>, err))"

text \<open>
  \<open>GossipReceiver\<close> answers a gossip request with the puts asked for and, when the
  requester is ahead of what is recorded for it, queues a request to gossip back.
\<close>

definition GossipReceiver :: "Env \<Rightarrow> DHT \<Rightarrow> Message \<Rightarrow> DHT \<times> (panic + (Response \<times> error option))" where
  "GossipReceiver env dht m =
     (case Type m of
        GOSSIP_REQUEST \<Rightarrow>
          (let dht1 = Logf dht ''GossipReceiver got GOSSIP_REQUEST: %v'' [AMsg m] in
           case Body m of
             BodyGossipReq t \<Rightarrow>
               (let dht2 = Logf dht1 ''%v wants my puts since %d and is at %d''
                             [APeer (From m), AInt (YourIdx t), AInt (MyIdx t)] in
                case GetPuts env (db dht2) (YourIdx t) of
                  Inl p \<Rightarrow> (dht2, Inl p)
                | Inr (puts, err) \<Rightarrow>
                    (let response = RespGossip \<lparr>Puts = puts\<rparr> in
                     case GetGossiper (db dht2) (From m) of
                       (i, e) \<Rightarrow>
                         if e = None \<and> sint i < sint (MyIdx t) then
                           (let dht3 = Logf dht2 ''we only have %d of %d from %v so gossiping back''
                                         [AInt i, AInt (MyIdx t), APeer (From m)];
                                pi = PeerAddrs env (From m);
                                dht4 = (if length pi = 0
                                        then Logf dht3 ''NO ADDRESSES FOR PEER:%v'' [APeer (From m), AAddrs pi]
                                        else dht3)
                            in (dht4\<lparr>gchan := gchan dht4 @ [From m]\<rparr>, Inr (response, err)))
                         else (dht2, Inr (response, err))))
           | _ \<Rightarrow> (dht1, Inr (RespNil, Some ErrDHTExpectedGossipReqInBody)))
      | OtherMsgType n \<Rightarrow>
          (dht, Inr (RespNil,
             Some (Errorf (''message type '' @ Sprintf_d n @ '' not in holochain-gossip protocol'')))))"

text \<open>The body of the loop of \<open>gossipWith\<close> over the puts received, for the put numbered \<open>i\<close>.\<close>

definition apply_put :: "Env \<Rightarrow> int64 \<Rightarrow> Put \<Rightarrow> DHT \<Rightarrow> DHT" where
  "apply_put env i p dht =
     (case Fingerprint env (M p) of
        (f, None) \<Rightarrow>
          (let dht1 = Logf dht ''PUT--%d (fingerprint: %v)'' [AInt i, AHash f] in
           case HaveFingerprint (db dht1) f of
             (exists, e) \<Rightarrow>
               if \<not> exists \<and> e = None then
                 (let dht2 = Logf dht1 ''PUT--%d calling ActionReceiver'' [AInt i] in
                  case ActionReceiver env (M p) (db dht2) of
                    (d', r, e') \<Rightarrow>
                      Logf (dht2\<lparr>db := d'\<rparr>) ''PUT--%d ActionReceiver returned %v with err %v''
                        [AInt i, AStr r, AErr e'])
               else if e = None then Logf dht1 ''already have fingerprint %v'' [AHash f]
               else Logf dht1 ''error in HaveFingerprint %v'' [AErr e])
      | (f, Some e) \<Rightarrow> Logf dht ''error calculating fingerprint for %v'' [APut p])"

text \<open>
  \<open>for i, p := range puts { idx = i + yourIdx + 1; ... }\<close>, on the pair of the variable
  \<open>idx\<close> and the state; \<open>i\<close> is the position of the first put of the list.
\<close>

fun gossip_loop :: "Env \<Rightarrow> int64 \<Rightarrow> nat \<Rightarrow> Put list \<Rightarrow> int64 \<times> DHT \<Rightarrow> int64 \<times> DHT" where
  "gossip_loop env yourIdx i [] (ix, dht) = (ix, dht)"
| "gossip_loop env yourIdx i (p # ps) (ix, dht) =
     (let ix' = word_of_nat i + yourIdx + 1
      in gossip_loop env yourIdx (Suc i) ps (ix', apply_put env ix' p dht))"

text \<open>\<open>gossipWith\<close> after the in-flight marker has been set.\<close>

definition gossipWith_body :: "Env \<Rightarrow> DHT \<Rightarrow> PeerID \<Rightarrow> DHT \<times> (panic + error option)" where
  "gossipWith_body env dht pid =
     (case GetIdx (db dht) of
        (myIdx, Some e) \<Rightarrow> (dht, Inr (Some e))
      | (myIdx, None) \<Rightarrow>
          (case GetGossiper (db dht) pid of
             (yourIdx, Some e) \<Rightarrow> (dht, Inr (Some e))
           | (yourIdx, None) \<Rightarrow>
               (let req = \<lparr>MyIdx = myIdx, YourIdx = yourIdx + 1\<rparr>;
                    dht1 = dht\<lparr>sent := sent dht @ [(pid, req)]\<rparr>
                in case Send env pid req of
                     (r, Some e) \<Rightarrow> (dht1, Inr (Some e))
                   | (r, None) \<Rightarrow>
                       (case r of
                          RespGossip gossip \<Rightarrow>
                            (let puts = Puts gossip;
                                 dht2 = Logf dht1 ''received puts: %v'' [APuts puts];
                                 count = length puts
                             in if 0 < count then
                                  (let dht3 = Logf dht2 ''running %d puts'' [AInt (word_of_nat count)] in
                                   case gossip_loop env yourIdx 0 puts (0, dht3) of
                                     (ix, dht4) \<Rightarrow>
                                       (case UpdateGossiper dht4 pid ix of
                                          (dht5, err) \<Rightarrow> (dht5, Inr err)))
                                else (dht2, Inr None))
                        | _ \<Rightarrow> (dht1, Inl TypeAssertion)))))"

text \<open>
  \<open>gossipWith\<close>: when the peer is already in the table of running gossips the call
  returns at once; otherwise the peer is entered, and the deferred function removes it
  again however the body ends.
\<close>

definition gossipWith :: "Env \<Rightarrow> DHT \<Rightarrow> PeerID \<Rightarrow> DHT \<times> (panic + error option)" where
  "gossipWith env dht pid =
     (let dht1 = Logf dht ''with %v'' [APeer pid] in
      if gossips dht1 pid \<noteq> None then (dht1, Inr None)
      else
        (case gossipWith_body env (dht1\<lparr>gossips := (gossips dht1)(pid \<mapsto> True)\<rparr>) pid of
           (dht2, out) \<Rightarrow> (dht2\<lparr>gossips := (gossips dht2)(pid := None)\<rparr>, out)))"

text \<open>
  What the loop leaves in the log for the put numbered \<open>i\<close>: the line for a fingerprint
  that could not be computed, or the line announcing the put and then one of the three
  lines that end its treatment: what \<open>ActionReceiver\<close> returned, that the fingerprint is
  known already, or the error of \<open>HaveFingerprint\<close>.
\<close>

definition put_logged :: "Env \<Rightarrow> int64 \<Rightarrow> Put \<Rightarrow> LogEntry list \<Rightarrow> bool" where
  "put_logged env i p L =
     (case Fingerprint env (M p) of
        (f, Some e) \<Rightarrow> LogLine ''error calculating fingerprint for %v'' [APut p] \<in> set L
      | (f, None) \<Rightarrow>
          LogLine ''PUT--%d (fingerprint: %v)'' [AInt i, AHash f] \<in> set L
          \<and> ((\<exists>d d' r e. ActionReceiver env (M p) d = (d', r, e)
                  \<and> LogLine ''PUT--%d ActionReceiver returned %v with err %v'' [AInt i, AStr r, AErr e] \<in> set L)
               \<or> (\<exists>d. HaveFingerprint d f = (True, None)
                  \<and> LogLine ''already have fingerprint %v'' [AHash f] \<in> set L)
               \<or> (\<exists>d ex e. HaveFingerprint d f = (ex, Some e)
                  \<and> LogLine ''error in HaveFingerprint %v'' [AErr (Some e)] \<in> set L)))"

text \<open>
  The specification's cursor after a batch, in its own words "the highest successfully
  inspected index": the highest position whose put had its fingerprint computed, and the
  value \<open>best\<close> when there is none. This follows the specification, not the code.
\<close>

fun highest_inspected :: "Env \<Rightarrow> int64 \<Rightarrow> nat \<Rightarrow> Put list \<Rightarrow> int64 \<Rightarrow> int64" where
  "highest_inspected env yourIdx i [] best = best"
| "highest_inspected env yourIdx i (p # ps) best =
     highest_inspected env yourIdx (Suc i) ps
       (if snd (Fingerprint env (M p)) = None then word_of_nat i + yourIdx + 1 else best)"

section \<open>Validation in the script host (jsnucleus.go)\<close>



















subsection \<open>The host function \<open>commit\<close>\<close>



section \<open>An example environment\<close>

text \<open>
  A small codec and network on which the definitions can be run. A message is encoded
  as the text of its body, which must begin with the letter m; its fingerprint is that
  text behind \<open>Qm\<close>. The scan presents the records of the store at the keys \<open>idx:1\<close>,
  \<open>idx:2\<close> and \<open>idx:3\<close>. Receiving an action stores its text. The peer \<open>QmA\<close> answers a
  gossip request with two puts, of which the second has no fingerprint; the peer \<open>QmB\<close>
  answers with none; no other peer answers.
\<close>

definition ex_decode :: decoder where
  "ex_decode b m =
     (if take 1 b = ''m'' then (m\<lparr>Body := BodyOther b\<rparr>, None)
      else (m, Some (ExtErr ''unexpected EOF'')))"

definition ex_encode :: "Message \<Rightarrow> string \<times> error option" where
  "ex_encode m =
     (case Body m of BodyOther b \<Rightarrow> (b, None) | _ \<Rightarrow> ([], Some (ExtErr ''cannot encode'')))"

definition ex_fingerprint :: "Message \<Rightarrow> Hash \<times> error option" where
  "ex_fingerprint m =
     (case Body m of
        BodyOther b \<Rightarrow> (B58Hash (''Qm'' @ b), None)
      | _ \<Rightarrow> (B58Hash [], Some (ExtErr ''cannot encode'')))"

definition ex_scan :: "int64 \<Rightarrow> store \<Rightarrow> error + (string \<times> string) list" where
  "ex_scan since d =
     Inr (List.map_filter (\<lambda>k. map_option (Pair k) (d k)) [''idx:1'', ''idx:2'', ''idx:3''])"

definition ex_receiver :: "Message \<Rightarrow> store \<Rightarrow> store \<times> string \<times> error option" where
  "ex_receiver m d =
     (case Body m of
        BodyOther b \<Rightarrow> (d(''entry:'' @ b \<mapsto> b), ''ok'', None)
      | _ \<Rightarrow> (d, [], Some (ExtErr ''no action'')))"

definition ex_msg :: "string \<Rightarrow> Message" where
  "ex_msg b = \<lparr>From = B58Peer ''QmA'', Type = OtherMsgType 2, Body = BodyOther b, Time = 0\<rparr>"

definition ex_puts :: "Put list" where
  "ex_puts = [\<lparr>idx = 0, M = ex_msg ''m1''\<rparr>, \<lparr>idx = 0, M = zero_Message\<rparr>]"

definition ex_send :: "PeerID \<Rightarrow> GossipReq \<Rightarrow> Response \<times> error option" where
  "ex_send pid req =
     (if pid = B58Peer ''QmA''
      then (RespGossip \<lparr>Puts = ex_puts\<rparr>, None)
      else if pid = B58Peer ''QmB'' then (RespGossip \<lparr>Puts = []\<rparr>, None)
      else (RespNil, Some (ExtErr ''timeout'')))"

definition ex_Env :: Env where
  "ex_Env = \<lparr>ByteEncoder = ex_encode, ByteDecoder = ex_decode, Fingerprint = ex_fingerprint,
             AscendIdx = ex_scan, ActionReceiver = ex_receiver, Send = ex_send,
             PeerAddrs = (\<lambda>pid. [])\<rparr>"

definition ex_DHT :: "store \<Rightarrow> DHT" where
  "ex_DHT d = \<lparr>db = d, gossips = Map.empty, gchan = [], glog = [], sent = []\<rparr>"

text \<open>A node with an empty store that gossips with nobody, and one that is gossiping with \<open>QmA\<close>.\<close>

definition ex_idle :: DHT where
  "ex_idle = ex_DHT Map.empty"


text \<open>
  Example stores: a change log holding the message \<open>m1\<close> at index 1, and a cursor table
  in which the peer \<open>QmA\<close> stands at 10.
\<close>

definition ex_log1 :: store where
  "ex_log1 = [''_idx'' \<mapsto> ''1'', ''idx:1'' \<mapsto> ''m1'', ''f:Qmm1'' \<mapsto> ''1'']"

definition ex_cursor10 :: store where
  "ex_cursor10 = [''peer:QmA'' \<mapsto> ''10'']"

text \<open>
  A change log of three records of which the second does not decode, and a gossip request
  from \<open>QmA\<close>, which is at index 4 and asks for the puts from 1 on.
\<close>

definition ex_log3 :: store where
  "ex_log3 = [''_idx'' \<mapsto> ''3'', ''idx:1'' \<mapsto> ''m1'', ''idx:2'' \<mapsto> ''junk'', ''idx:3'' \<mapsto> ''m3'']"

definition ex_request :: Message where
  "ex_request = \<lparr>From = B58Peer ''QmA'', Type = GOSSIP_REQUEST,
                  Body = BodyGossipReq \<lparr>MyIdx = 4, YourIdx = 1\<rparr>, Time = 0\<rparr>"











section \<open>Decimal text round trip\<close>

lemma lt_10_cases:
  "(d::nat) < 10 \<Longrightarrow> d = 0 \<or> d = 1 \<or> d = 2 \<or> d = 3 \<or> d = 4 \<or> d = 5 \<or> d = 6 \<or> d = 7 \<or> d = 8 \<or> d = 9"
  by arith

lemma digit_of_digit_char: "d < 10 \<Longrightarrow> digit_of (digit_char d) = Some d"
  using lt_10_cases [of d] by (auto simp: digit_of_def digit_char_def)

lemma digit_char_not_sign: "d < 10 \<Longrightarrow> digit_char d \<noteq> CHR ''-'' \<and> digit_char d \<noteq> CHR ''+''"
  using lt_10_cases [of d] by (auto simp: digit_char_def)

lemma parse_digits_snoc:
  "parse_digits (cs @ [c]) a =
     (case parse_digits cs a of
        Inl e \<Rightarrow> Inl e
      | Inr b \<Rightarrow>
          (case digit_of c of
             None \<Rightarrow> Inl NumErrSyntax
           | Some d \<Rightarrow> if 2 ^ 64 \<le> b * 10 + d then Inl NumErrRange else Inr (b * 10 + d)))"
  by (induction cs arbitrary: a) (auto split: option.splits)

lemma parse_digits_nat_dec: "n < 2 ^ 64 \<Longrightarrow> parse_digits (nat_dec n) 0 = Inr n"
proof (induction n rule: nat_dec.induct)
  case (1 n)
  show ?case
  proof (cases "n < 10")
    case True
    then show ?thesis
      by (subst nat_dec.simps) (simp add: digit_of_digit_char)
  next
    case False
    have "n div 10 < 2 ^ 64"
      using "1.prems" by simp
    then have "parse_digits (nat_dec (n div 10)) 0 = Inr (n div 10)"
      using 1 False by simp
    moreover have "digit_of (digit_char (n mod 10)) = Some (n mod 10)"
      by (simp add: digit_of_digit_char)
    ultimately show ?thesis
      using False "1.prems" by (subst nat_dec.simps) (simp add: parse_digits_snoc)
  qed
qed

lemma nat_dec_nonempty: "nat_dec n \<noteq> []"
  by (subst nat_dec.simps) simp

lemma hd_nat_dec: "\<exists>d<10. hd (nat_dec n) = digit_char d"
proof (induction n rule: nat_dec.induct)
  case (1 n)
  show ?case
  proof (cases "n < 10")
    case True
    then show ?thesis by (subst nat_dec.simps) auto
  next
    case False
    then show ?thesis
      using 1 nat_dec_nonempty [of "n div 10"] by (subst nat_dec.simps) simp
  qed
qed

lemma hd_nat_dec_not_sign: "hd (nat_dec n) \<noteq> CHR ''-'' \<and> hd (nat_dec n) \<noteq> CHR ''+''"
proof -
  obtain d where "d < 10" "hd (nat_dec n) = digit_char d"
    using hd_nat_dec [of n] by blast
  then show ?thesis
    using digit_char_not_sign [of d] by simp
qed

text \<open>Reading back what \<open>%d\<close> printed gives the integer printed, without error.\<close>

lemma Atoi_Sprintf_d: "Atoi (Sprintf_d w) = (w, None)"
proof (cases "sint w < 0")
  case True
  have "- (2 ^ 63) \<le> sint w"
    using sint_ge [of w] by simp
  then have bound: "nat (- sint w) \<le> 2 ^ 63"
    by simp
  then have "nat (- sint w) < 2 ^ 64"
    by simp
  then have digits: "parse_digits (nat_dec (nat (- sint w))) 0 = Inr (nat (- sint w))"
    by (rule parse_digits_nat_dec)
  have "word_of_int (- int (nat (- sint w))) = w"
    using True by simp
  then show ?thesis
    using True bound digits
    by (simp add: Atoi_def Sprintf_d_def nat_dec_nonempty)
next
  case False
  have "sint w < 2 ^ 63"
    using sint_lt [of w] by simp
  then have bound: "nat (sint w) < 2 ^ 63"
    using False by simp
  then have "nat (sint w) < 2 ^ 64"
    by simp
  then have digits: "parse_digits (nat_dec (nat (sint w))) 0 = Inr (nat (sint w))"
    by (rule parse_digits_nat_dec)
  have "word_of_int (int (nat (sint w))) = w"
    using False by simp
  then show ?thesis
    using False bound digits hd_nat_dec_not_sign [of "nat (sint w)"]
    by (simp add: Atoi_def Sprintf_d_def nat_dec_nonempty)
qed

lemmas dec_eval = Sprintf_d_def nat_dec.simps digit_char_def Atoi_def digit_of_def

section \<open>The change log: reading a message back\<close>

text \<open>
  C10. When the key \<open>idx:<i>\<close> is present and its value fails to decode, \<open>GetIdxMessage\<close>
  returns no error, together with the message as the decoder left it (the zero message
  or a partly filled one): the decoder's error is dropped inside the view.
\<close>

theorem GetIdxMessage_drops_decode_error:
  assumes "d (''idx:'' @ Sprintf_d i) = Some v"
    and "dec v zero_Message = (m', Some e)"
  shows "GetIdxMessage dec d i = (m', None)"
  using assms by (simp add: GetIdxMessage_def View_def tx_Get_def)

theorem GetIdxMessage_drops_decode_error_witness:
  "[''idx:7'' \<mapsto> ''junk''] (''idx:'' @ Sprintf_d 7) = Some ''junk''
   \<and> ex_decode ''junk'' zero_Message = (zero_Message, Some (ExtErr ''unexpected EOF''))
   \<and> GetIdxMessage ex_decode [''idx:7'' \<mapsto> ''junk''] 7 = (zero_Message, None)"
proof -
  have k: "[''idx:7'' \<mapsto> ''junk''] (''idx:'' @ Sprintf_d 7) = Some ''junk''"
    by (simp add: dec_eval)
  have f: "ex_decode ''junk'' zero_Message = (zero_Message, Some (ExtErr ''unexpected EOF''))"
    by (simp add: ex_decode_def)
  show ?thesis
    using k f GetIdxMessage_drops_decode_error [of "[''idx:7'' \<mapsto> ''junk'']" 7 "''junk''" ex_decode zero_Message "ExtErr ''unexpected EOF''"]
    by simp
qed

section \<open>The change log: appending\<close>

lemma getIntVal_data:
  "getIntVal key tx = (case data tx key of None \<Rightarrow> (0, None) | Some v \<Rightarrow> Atoi v)"
  by (simp add: getIntVal_def tx_Get_def split: option.splits)

lemma incIdx_writes:
  assumes "writable tx" and "getIntVal ''_idx'' tx = (i, None)"
    and "ByteEncoder env m = (b, None)" and "Fingerprint env m = (f, None)"
  shows "incIdx env tx (Some m) =
           (tx\<lparr>data := (data tx)(''_idx'' \<mapsto> Sprintf_d (i + 1),
                                   ''idx:'' @ Sprintf_d (i + 1) \<mapsto> b,
                                   ''f:'' @ Hash_String f \<mapsto> Sprintf_d (i + 1))\<rparr>,
            Sprintf_d (i + 1), None)"
  using assms by (simp add: incIdx_def tx_Set_def Let_def)

text \<open>
  C1, as stated, fails: \<open>incIdx\<close> never looks a fingerprint up. On the log holding
  \<open>m1\<close> at index 1, appending \<open>m1\<close> again returns no error, moves \<open>_idx\<close> from 1 to 2 and
  overwrites \<open>f:Qmm1\<close> with 2.
\<close>

theorem incIdx_duplicate_counterexample:
  "Fingerprint ex_Env (ex_msg ''m1'') = (B58Hash ''Qmm1'', None)
   \<and> ex_log1 ''f:Qmm1'' = Some ''1''
   \<and> ex_log1 ''_idx'' = Some ''1''
   \<and> snd (snd (incIdx ex_Env \<lparr>writable = True, data = ex_log1\<rparr> (Some (ex_msg ''m1'')))) = None
   \<and> data (fst (incIdx ex_Env \<lparr>writable = True, data = ex_log1\<rparr> (Some (ex_msg ''m1'')))) ''_idx'' = Some ''2''
   \<and> data (fst (incIdx ex_Env \<lparr>writable = True, data = ex_log1\<rparr> (Some (ex_msg ''m1'')))) ''f:Qmm1'' = Some ''2''"
  by (simp add: incIdx_def tx_Set_def getIntVal_data ex_log1_def ex_Env_def ex_encode_def
        ex_fingerprint_def ex_msg_def dec_eval Let_def)

text \<open>
  C1, amended. For a message whose fingerprint is already recorded, in a writable
  transaction whose counter \<open>_idx\<close> reads \<open>i\<close> and with an encoder and a fingerprint that
  succeed, \<open>incIdx\<close> returns no error and the index \<open>i + 1\<close>; it sets \<open>_idx\<close> to it, stores
  the encoded message under \<open>idx:<i+1>\<close>, points \<open>f:<fingerprint>\<close> to the new index, and
  leaves every other key as it was.
\<close>

theorem incIdx_duplicate_appends:
  assumes "writable tx" and "getIntVal ''_idx'' tx = (i, None)"
    and "ByteEncoder env m = (b, None)" and "Fingerprint env m = (f, None)"
    and "data tx (''f:'' @ Hash_String f) = Some old"
    and "incIdx env tx (Some m) = (tx', index, err)"
  shows "err = None \<and> index = Sprintf_d (i + 1)
         \<and> data tx' ''_idx'' = Some index
         \<and> data tx' (''idx:'' @ index) = Some b
         \<and> data tx' (''f:'' @ Hash_String f) = Some index
         \<and> (\<forall>k. k \<noteq> ''_idx'' \<and> k \<noteq> ''idx:'' @ index \<and> k \<noteq> ''f:'' @ Hash_String f
                \<longrightarrow> data tx' k = data tx k)"
  using assms(6) incIdx_writes [OF assms(1-4)] by auto

theorem incIdx_duplicate_appends_witness:
  "writable \<lparr>writable = True, data = ex_log1\<rparr>
   \<and> getIntVal ''_idx'' \<lparr>writable = True, data = ex_log1\<rparr> = (1, None)
   \<and> ByteEncoder ex_Env (ex_msg ''m1'') = (''m1'', None)
   \<and> Fingerprint ex_Env (ex_msg ''m1'') = (B58Hash ''Qmm1'', None)
   \<and> data \<lparr>writable = True, data = ex_log1\<rparr> (''f:'' @ Hash_String (B58Hash ''Qmm1'')) = Some ''1''
   \<and> snd (snd (incIdx ex_Env \<lparr>writable = True, data = ex_log1\<rparr> (Some (ex_msg ''m1'')))) = None
   \<and> fst (snd (incIdx ex_Env \<lparr>writable = True, data = ex_log1\<rparr> (Some (ex_msg ''m1'')))) = Sprintf_d (1 + 1)"
proof -
  have w: "writable \<lparr>writable = True, data = ex_log1\<rparr>"
    by simp
  have i: "getIntVal ''_idx'' \<lparr>writable = True, data = ex_log1\<rparr> = (1, None)"
    by (simp add: getIntVal_data ex_log1_def dec_eval)
  have b: "ByteEncoder ex_Env (ex_msg ''m1'') = (''m1'', None)"
    by (simp add: ex_Env_def ex_encode_def ex_msg_def)
  have f: "Fingerprint ex_Env (ex_msg ''m1'') = (B58Hash ''Qmm1'', None)"
    by (simp add: ex_Env_def ex_fingerprint_def ex_msg_def)
  have old: "data \<lparr>writable = True, data = ex_log1\<rparr> (''f:'' @ Hash_String (B58Hash ''Qmm1'')) = Some ''1''"
    by (simp add: ex_log1_def)
  have p: "incIdx ex_Env \<lparr>writable = True, data = ex_log1\<rparr> (Some (ex_msg ''m1'')) =
             (fst (incIdx ex_Env \<lparr>writable = True, data = ex_log1\<rparr> (Some (ex_msg ''m1''))),
              fst (snd (incIdx ex_Env \<lparr>writable = True, data = ex_log1\<rparr> (Some (ex_msg ''m1'')))),
              snd (snd (incIdx ex_Env \<lparr>writable = True, data = ex_log1\<rparr> (Some (ex_msg ''m1'')))))"
    by simp
  show ?thesis
    using w i b f old incIdx_duplicate_appends [OF w i b f old p] by blast
qed

section \<open>The peer cursor table: properties\<close>

lemma GetGossiper_data:
  "GetGossiper d p = (case d (''peer:'' @ IDB58Encode p) of None \<Rightarrow> (0, None) | Some v \<Rightarrow> Atoi v)"
  by (simp add: GetGossiper_def View_def getIntVal_data)

lemma UpdateGossiper_db:
  "UpdateGossiper dht p n =
     (case GetGossiper (db dht) p of
        (c, Some e) \<Rightarrow> (Logf dht ''updaing %v to %d'' [APeer p, AInt n], Some e)
      | (c, None) \<Rightarrow>
          if sint n < sint c then (Logf dht ''updaing %v to %d'' [APeer p, AInt n], None)
          else ((Logf dht ''updaing %v to %d'' [APeer p, AInt n])
                  \<lparr>db := (db dht)(''peer:'' @ IDB58Encode p \<mapsto> Sprintf_d n)\<rparr>, None))"
  by (simp add: UpdateGossiper_def Update_def GetGossiper_data getIntVal_data tx_Set_def Logf_def
           split: option.splits prod.splits)

text \<open>
  C4, as stated, fails when the cursor recorded for the peer is above \<open>x\<close>: the first
  update is then the one that is ignored. With 10 recorded, updating to 5 and then to 3
  leaves 10, not 5.
\<close>

theorem UpdateGossiper_lower_first_counterexample:
  "sint (3 :: int64) < sint (5 :: int64)
   \<and> snd (UpdateGossiper (ex_DHT ex_cursor10) (B58Peer ''QmA'') 5) = None
   \<and> GetGossiper (db (fst (UpdateGossiper (fst (UpdateGossiper (ex_DHT ex_cursor10) (B58Peer ''QmA'') 5)) (B58Peer ''QmA'') 3)))
        (B58Peer ''QmA'') = (10, None)
   \<and> GetGossiper (db (fst (UpdateGossiper (fst (UpdateGossiper (ex_DHT ex_cursor10) (B58Peer ''QmA'') 5)) (B58Peer ''QmA'') 3)))
        (B58Peer ''QmA'') \<noteq> (5, None)"
  by (simp add: UpdateGossiper_db GetGossiper_data ex_DHT_def ex_cursor10_def Logf_def dec_eval)

text \<open>
  C4, amended. When the cursor recorded for the peer (0 when there is none) is at most
  \<open>x\<close>, and \<open>y < x\<close>: updating to \<open>x\<close> and then to \<open>y\<close> returns no error either time, the
  second update leaves the store as the first left it, and the cursor is \<open>x\<close>.
\<close>

theorem UpdateGossiper_monotone:
  assumes "GetGossiper (db dht) p = (c, None)" and "sint c \<le> sint x" and "sint y < sint x"
    and "UpdateGossiper dht p x = (dht1, e1)" and "UpdateGossiper dht1 p y = (dht2, e2)"
  shows "e1 = None \<and> e2 = None \<and> db dht2 = db dht1 \<and> GetGossiper (db dht2) p = (x, None)"
proof -
  let ?key = "''peer:'' @ IDB58Encode p"
  have first: "db dht1 = (db dht)(?key \<mapsto> Sprintf_d x)" "e1 = None"
    using assms(1,2,4) by (auto simp: UpdateGossiper_db Logf_def)
  then have cur: "GetGossiper (db dht1) p = (x, None)"
    by (simp add: GetGossiper_data Atoi_Sprintf_d)
  then have second: "db dht2 = db dht1" "e2 = None"
    using assms(3,5) by (auto simp: UpdateGossiper_db Logf_def)
  show ?thesis
    using first cur second by simp
qed

theorem UpdateGossiper_monotone_witness:
  "GetGossiper (db (ex_DHT Map.empty)) (B58Peer ''QmA'') = (0, None)
   \<and> sint (0 :: int64) \<le> sint (5 :: int64) \<and> sint (3 :: int64) < sint (5 :: int64)
   \<and> snd (UpdateGossiper (ex_DHT Map.empty) (B58Peer ''QmA'') 5) = None
   \<and> snd (UpdateGossiper (fst (UpdateGossiper (ex_DHT Map.empty) (B58Peer ''QmA'') 5)) (B58Peer ''QmA'') 3) = None
   \<and> db (fst (UpdateGossiper (fst (UpdateGossiper (ex_DHT Map.empty) (B58Peer ''QmA'') 5)) (B58Peer ''QmA'') 3))
       = db (fst (UpdateGossiper (ex_DHT Map.empty) (B58Peer ''QmA'') 5))
   \<and> GetGossiper (db (fst (UpdateGossiper (fst (UpdateGossiper (ex_DHT Map.empty) (B58Peer ''QmA'') 5)) (B58Peer ''QmA'') 3)))
        (B58Peer ''QmA'') = (5, None)"
proof -
  have c: "GetGossiper (db (ex_DHT Map.empty)) (B58Peer ''QmA'') = (0, None)"
    by (simp add: GetGossiper_data ex_DHT_def)
  have le: "sint (0 :: int64) \<le> sint (5 :: int64)" and lt: "sint (3 :: int64) < sint (5 :: int64)"
    by simp_all
  show ?thesis
    using c le lt UpdateGossiper_monotone [OF c le lt surjective_pairing surjective_pairing]
    by blast
qed

text \<open>
  C9, at an unknown peer. \<open>GetGossiper\<close> reads inside a view: it returns 0 and no error,
  and writes nothing. A whole \<open>gossipWith\<close> with a peer that has no record and answers
  with no puts ends without error and still without a record \<open>peer:QmB\<close>.
\<close>

theorem GetGossiper_does_not_register:
  "GetGossiper Map.empty (B58Peer ''QmB'') = (0, None)
   \<and> snd (gossipWith ex_Env (ex_DHT Map.empty) (B58Peer ''QmB'')) = Inr None
   \<and> db (fst (gossipWith ex_Env (ex_DHT Map.empty) (B58Peer ''QmB''))) ''peer:QmB'' = None"
  by (simp add: GetGossiper_data gossipWith_def gossipWith_body_def GetIdx_def View_def getIntVal_data
        Logf_def ex_DHT_def ex_Env_def ex_send_def)

section \<open>Reading the puts since an index\<close>

lemma Split_nonempty: "Split s c \<noteq> []"
  by (induction s) (auto split: list.splits)

lemma Split_idx_key:
  assumes "take 4 k = ''idx:''"
  shows "1 < length (Split k CHR '':'')"
proof -
  have "k = ''idx:'' @ drop 4 k"
    using assms append_take_drop_id [of 4 k] by simp
  then obtain r where "k = ''idx:'' @ r" ..
  then have "Split k CHR '':'' = ''idx'' # Split r CHR '':''"
    by (simp split: list.splits add: Split_nonempty)
  then show ?thesis
    using Split_nonempty [of r "CHR '':''"] by (cases "Split r CHR '':''") simp_all
qed

lemma GetPuts_cb_ok:
  assumes "take 4 k = ''idx:''" and "\<forall>p\<in>set acc. sint since \<le> sint (idx p)"
  shows "\<exists>acc' goon. GetPuts_cb dec since k v acc = Inr (acc', goon)
           \<and> (\<forall>p\<in>set acc'. sint since \<le> sint (idx p))"
  using assms Split_idx_key [OF assms(1)]
  by (auto simp: GetPuts_cb_def Let_def split: prod.splits option.splits)

lemma ascend_GetPuts_cb:
  assumes "\<forall>(k, v)\<in>set items. take 4 k = ''idx:''" and "\<forall>p\<in>set acc. sint since \<le> sint (idx p)"
  shows "\<exists>puts. ascend (GetPuts_cb dec since) items acc = Inr puts
           \<and> (\<forall>p\<in>set puts. sint since \<le> sint (idx p))"
  using assms
proof (induction items arbitrary: acc)
  case Nil
  then show ?case by simp
next
  case (Cons kv items)
  obtain k v where kv: "kv = (k, v)" by (cases kv)
  with Cons.prems have k: "take 4 k = ''idx:''" by simp
  obtain acc' goon where cb: "GetPuts_cb dec since k v acc = Inr (acc', goon)"
    and inv: "\<forall>p\<in>set acc'. sint since \<le> sint (idx p)"
    using GetPuts_cb_ok [OF k Cons.prems(2)] by blast
  show ?case
  proof (cases goon)
    case True
    have "\<forall>(k, v)\<in>set items. take 4 k = ''idx:''"
      using Cons.prems(1) by simp
    from Cons.IH [OF this inv] show ?thesis
      using kv cb True by simp
  next
    case False
    then show ?thesis using kv cb inv by simp
  qed
qed

lemma sort_Slice_sorted: "sorted (map (\<lambda>p. sint (idx p)) (sort_Slice puts))"
  by (simp add: sort_Slice_def)

lemma sort_Slice_set: "set (sort_Slice puts) = set puts"
  by (simp add: sort_Slice_def)

lemma GetPuts_returns:
  assumes "idx_scan_ok env"
  shows "\<exists>puts err. GetPuts env d since = Inr (puts, err)
           \<and> sorted (map (\<lambda>p. sint (idx p)) puts)
           \<and> (\<forall>p\<in>set puts. sint since \<le> sint (idx p))
           \<and> ((\<forall>k v. d k = Some v \<longrightarrow> take 4 k \<noteq> ''idx:'') \<longrightarrow> puts = [])"
proof (cases "AscendIdx env since d")
  case (Inl e)
  then show ?thesis
    by (simp add: GetPuts_def sort_Slice_def)
next
  case (Inr items)
  have rec: "\<forall>(k, v)\<in>set items. d k = Some v \<and> take 4 k = ''idx:''"
    using assms Inr unfolding idx_scan_ok_def by blast
  then have keys: "\<forall>(k, v)\<in>set items. take 4 k = ''idx:''"
    by auto
  obtain puts where run: "ascend (GetPuts_cb (ByteDecoder env) since) items [] = Inr puts"
    and inv: "\<forall>p\<in>set puts. sint since \<le> sint (idx p)"
    using ascend_GetPuts_cb [OF keys, of "[]" since "ByteDecoder env"] by auto
  have res: "GetPuts env d since = Inr (sort_Slice puts, None)"
    using Inr run by (simp add: GetPuts_def)
  have empty: "(\<forall>k v. d k = Some v \<longrightarrow> take 4 k \<noteq> ''idx:'') \<longrightarrow> sort_Slice puts = []"
  proof
    assume "\<forall>k v. d k = Some v \<longrightarrow> take 4 k \<noteq> ''idx:''"
    with rec have "items = []"
      by (cases items) auto
    with run show "sort_Slice puts = []"
      by (simp add: sort_Slice_def)
  qed
  show ?thesis
    using res inv empty sort_Slice_sorted [of puts] by (simp add: sort_Slice_set)
qed

lemma ex_scan_ok: "idx_scan_ok ex_Env"
  by (auto simp: idx_scan_ok_def ex_Env_def ex_scan_def List.map_filter_def split: if_splits)

lemmas GetPuts_eval = GetPuts_def ex_Env_def ex_scan_def List.map_filter_def GetPuts_cb_def
  ex_decode_def sort_Slice_def Let_def dec_eval

text \<open>
  C2. Whatever records the scan of the index presents, \<open>GetPuts\<close> returns, and the puts
  it returns are in ascending order of \<open>idx\<close> (as signed integers) and all have
  \<open>idx \<ge> since\<close>; when the store holds no record under \<open>idx:\<close> the list is empty.
\<close>

theorem GetPuts_ascending_from_since:
  assumes "idx_scan_ok env"
  shows "\<exists>puts err. GetPuts env d since = Inr (puts, err)
           \<and> sorted (map (\<lambda>p. sint (idx p)) puts)
           \<and> (\<forall>p\<in>set puts. sint since \<le> sint (idx p))
           \<and> ((\<forall>k v. d k = Some v \<longrightarrow> take 4 k \<noteq> ''idx:'') \<longrightarrow> puts = [])"
  using assms by (rule GetPuts_returns)

theorem GetPuts_ascending_from_since_witness:
  "idx_scan_ok ex_Env
   \<and> (\<exists>puts err. GetPuts ex_Env ex_log3 1 = Inr (puts, err)
           \<and> sorted (map (\<lambda>p. sint (idx p)) puts)
           \<and> (\<forall>p\<in>set puts. sint (1 :: int64) \<le> sint (idx p))
           \<and> ((\<forall>k v. ex_log3 k = Some v \<longrightarrow> take 4 k \<noteq> ''idx:'') \<longrightarrow> puts = []))"
  using ex_scan_ok GetPuts_ascending_from_since [OF ex_scan_ok, of ex_log3 1] by blast

text \<open>
  C3, at a log whose second record does not decode. The scan from 1 stops at that record:
  \<open>GetPuts\<close> returns the one put before it and no error, so the caller cannot tell the
  result from a complete one (the record at index 3 is missing from it).
\<close>

theorem GetPuts_drops_decode_error:
  "ex_log3 ''idx:2'' = Some ''junk''
   \<and> snd (ByteDecoder ex_Env ''junk'' zero_Message) = Some (ExtErr ''unexpected EOF'')
   \<and> ex_log3 ''idx:3'' = Some ''m3''
   \<and> GetPuts ex_Env ex_log3 1 = Inr ([\<lparr>idx = 1, M = zero_Message\<lparr>Body := BodyOther ''m1''\<rparr>\<rparr>], None)"
  by (simp add: GetPuts_eval ex_log3_def)

section \<open>Answering a gossip request\<close>

text \<open>
  C6. For a \<open>GOSSIP_REQUEST\<close> whose body is a gossip request \<open>t\<close>, \<open>GossipReceiver\<close> returns
  the puts and the error of \<open>GetPuts (YourIdx t)\<close> as a \<open>Gossip\<close>; it appends the sender to
  the channel of gossip-with requests exactly when \<open>GetGossiper\<close> gives, without error,
  a cursor below \<open>MyIdx t\<close>, and leaves the channel as it is otherwise. The store is not
  written.
\<close>

theorem GossipReceiver_reply_and_back_gossip:
  assumes "idx_scan_ok env" and "Type m = GOSSIP_REQUEST" and "Body m = BodyGossipReq t"
    and "GossipReceiver env dht m = (dht', out)"
  shows "(\<exists>puts err. GetPuts env (db dht) (YourIdx t) = Inr (puts, err)
            \<and> out = Inr (RespGossip \<lparr>Puts = puts\<rparr>, err))
         \<and> (if snd (GetGossiper (db dht) (From m)) = None
                \<and> sint (fst (GetGossiper (db dht) (From m))) < sint (MyIdx t)
             then gchan dht' = gchan dht @ [From m]
             else gchan dht' = gchan dht)
         \<and> db dht' = db dht"
proof -
  obtain puts err where g: "GetPuts env (db dht) (YourIdx t) = Inr (puts, err)"
    using GetPuts_returns [OF assms(1), of "db dht" "YourIdx t"] by blast
  show ?thesis
    using assms(2-4) g
    by (auto simp: GossipReceiver_def Logf_def Let_def split: prod.splits if_splits)
qed

theorem GossipReceiver_reply_and_back_gossip_witness:
  "idx_scan_ok ex_Env \<and> Type ex_request = GOSSIP_REQUEST
   \<and> Body ex_request = BodyGossipReq \<lparr>MyIdx = 4, YourIdx = 1\<rparr>
   \<and> (\<exists>puts err. GetPuts ex_Env (db (ex_DHT ex_log1)) (YourIdx \<lparr>MyIdx = 4, YourIdx = 1\<rparr>) = Inr (puts, err)
            \<and> snd (GossipReceiver ex_Env (ex_DHT ex_log1) ex_request) = Inr (RespGossip \<lparr>Puts = puts\<rparr>, err))
   \<and> gchan (fst (GossipReceiver ex_Env (ex_DHT ex_log1) ex_request)) = gchan (ex_DHT ex_log1) @ [B58Peer ''QmA'']"
proof -
  have ty: "Type ex_request = GOSSIP_REQUEST" and bd: "Body ex_request = BodyGossipReq \<lparr>MyIdx = 4, YourIdx = 1\<rparr>"
    by (simp_all add: ex_request_def)
  have c: "snd (GetGossiper (db (ex_DHT ex_log1)) (From ex_request)) = None
           \<and> sint (fst (GetGossiper (db (ex_DHT ex_log1)) (From ex_request))) < sint (MyIdx \<lparr>MyIdx = 4, YourIdx = 1\<rparr>)"
    by (simp add: GetGossiper_data ex_DHT_def ex_log1_def ex_request_def)
  have fr: "From ex_request = B58Peer ''QmA''"
    by (simp add: ex_request_def)
  show ?thesis
    using ex_scan_ok ty bd c fr
      GossipReceiver_reply_and_back_gossip [OF ex_scan_ok ty bd surjective_pairing, of "ex_DHT ex_log1"]
    by (simp only: if_True)
qed


section \<open>Gossiping with a peer\<close>

lemma put_logged_mono: "put_logged env i p L \<Longrightarrow> set L \<subseteq> set L' \<Longrightarrow> put_logged env i p L'"
  unfolding put_logged_def by (auto split: prod.splits option.splits)


lemma apply_put_log:
  "\<exists>new. glog (apply_put env i p dht) = glog dht @ new \<and> put_logged env i p new"
proof (cases "Fingerprint env (M p)")
  case (Pair f fe)
  show ?thesis
  proof (cases fe)
    case (Some e)
    with Pair show ?thesis
      by (simp add: apply_put_def Logf_def put_logged_def)
  next
    case None
    obtain ex he where h: "HaveFingerprint (db dht) f = (ex, he)"
      by (cases "HaveFingerprint (db dht) f")
    obtain d' r e' where a: "ActionReceiver env (M p) (db dht) = (d', r, e')"
      by (cases "ActionReceiver env (M p) (db dht)")
    show ?thesis
      using Pair None h a
      by (cases he) (auto simp: apply_put_def Logf_def put_logged_def Let_def)
  qed
qed

lemma apply_put_key:
  assumes "\<forall>m d. fst (ActionReceiver env m d) k = d k"
  shows "db (apply_put env i p dht) k = db dht k"
proof -
  obtain d' r e' where a: "ActionReceiver env (M p) (db dht) = (d', r, e')"
    by (cases "ActionReceiver env (M p) (db dht)")
  then have "d' k = db dht k"
    using assms [rule_format, of "M p" "db dht"] by simp
  then show ?thesis
    using a by (simp add: apply_put_def Logf_def Let_def split: prod.splits option.splits)
qed


lemma gossip_loop_key:
  assumes "\<forall>m d. fst (ActionReceiver env m d) k = d k"
  shows "db (snd (gossip_loop env y i ps (ix, dht))) k = db dht k"
  by (induction ps arbitrary: i ix dht) (simp_all add: Let_def apply_put_key [OF assms])

lemma gossip_loop_ix:
  "ps \<noteq> [] \<Longrightarrow> fst (gossip_loop env y i ps (ix, dht)) = word_of_nat (i + length ps) + y"
proof (induction ps arbitrary: i ix dht)
  case Nil
  then show ?case by simp
next
  case (Cons p ps)
  show ?case
  proof (cases "ps = []")
    case True
    then show ?thesis by (simp add: Let_def)
  next
    case False
    then show ?thesis
      using Cons.IH [OF False] by (simp add: Let_def)
  qed
qed

lemma gossip_loop_log:
  "\<exists>new. glog (snd (gossip_loop env y i ps (ix, dht))) = glog dht @ new
         \<and> (\<forall>j<length ps. put_logged env (word_of_nat (i + j) + y + 1) (ps ! j) new)"
proof (induction ps arbitrary: i ix dht)
  case Nil
  then show ?case by simp
next
  case (Cons p ps)
  let ?i' = "word_of_nat i + y + 1 :: int64"
  let ?d = "apply_put env ?i' p dht"
  obtain n1 where n1: "glog ?d = glog dht @ n1" "put_logged env ?i' p n1"
    using apply_put_log by blast
  obtain n2 where n2: "glog (snd (gossip_loop env y (Suc i) ps (?i', ?d))) = glog ?d @ n2"
    "\<forall>j<length ps. put_logged env (word_of_nat (Suc i + j) + y + 1) (ps ! j) n2"
    using Cons.IH by blast
  have "\<forall>j<length (p # ps). put_logged env (word_of_nat (i + j) + y + 1) ((p # ps) ! j) (n1 @ n2)"
  proof (intro allI impI)
    fix j assume j: "j < length (p # ps)"
    show "put_logged env (word_of_nat (i + j) + y + 1) ((p # ps) ! j) (n1 @ n2)"
    proof (cases j)
      case 0
      show ?thesis
        using 0 n1(2) put_logged_mono [of env ?i' p n1 "n1 @ n2"] by simp
    next
      case (Suc j')
      then have "put_logged env (word_of_nat (Suc i + j') + y + 1) (ps ! j') n2"
        using n2(2) j by simp
      then show ?thesis
        using Suc put_logged_mono [of env _ "ps ! j'" n2 "n1 @ n2"] by simp
    qed
  qed
  then show ?case
    using n1(1) n2(1) by (auto simp: Let_def)
qed




lemma ex_send_QmA: "Send ex_Env (B58Peer ''QmA'') r = (RespGossip \<lparr>Puts = ex_puts\<rparr>, None)"
  by (simp add: ex_Env_def ex_send_def ex_puts_def)

lemma ex_receiver_keeps_peer:
  "\<forall>m d. fst (ActionReceiver ex_Env m d) (''peer:'' @ IDB58Encode (B58Peer ''QmA'')) = d (''peer:'' @ IDB58Encode (B58Peer ''QmA''))"
  by (auto simp: ex_Env_def ex_receiver_def split: Body.splits)

lemmas gossip_eval = gossipWith_def gossipWith_body_def GetIdx_def View_def getIntVal_data
  GetGossiper_data UpdateGossiper_db apply_put_def HaveFingerprint_def GetFingerprint_def tx_Get_def
  Logf_def Let_def ex_DHT_def ex_Env_def ex_send_def ex_fingerprint_def ex_receiver_def ex_msg_def
  zero_Message_def



text \<open>
  C7, as stated, fails in its last part. The peer \<open>QmA\<close> answers with two puts, and the
  fingerprint of the second cannot be computed, so that the highest index inspected
  without error is 1; \<open>gossipWith\<close> returns no error and moves the cursor of \<open>QmA\<close> to 2.
\<close>

theorem gossipWith_cursor_counterexample:
  "snd (Fingerprint ex_Env (M (ex_puts ! 1))) = Some (ExtErr ''cannot encode'')
   \<and> highest_inspected ex_Env 0 0 ex_puts 0 = 1
   \<and> snd (gossipWith ex_Env ex_idle (B58Peer ''QmA'')) = Inr None
   \<and> GetGossiper (db (fst (gossipWith ex_Env ex_idle (B58Peer ''QmA'')))) (B58Peer ''QmA'') = (2, None)
   \<and> GetGossiper (db (fst (gossipWith ex_Env ex_idle (B58Peer ''QmA'')))) (B58Peer ''QmA'')
        \<noteq> (highest_inspected ex_Env 0 0 ex_puts 0, None)"
  by (simp add: gossip_eval ex_idle_def ex_puts_def dec_eval)

text \<open>
  C7, amended. For a non-empty batch of puts received from a peer whose cursor was
  \<open>yourIdx\<close>, when \<open>ActionReceiver\<close> does not write the peer's record and
  \<open>yourIdx + length puts\<close> does not wrap around: whatever errors the fingerprints,
  \<open>HaveFingerprint\<close> or \<open>ActionReceiver\<close> give, \<open>gossipWith\<close> returns no error, every put
  of the batch has been treated and its outcome logged, and the cursor is
  \<open>yourIdx + length puts\<close>, the position of the last put received.
\<close>

theorem gossipWith_batch:
  assumes "gossips dht p = None"
    and "GetIdx (db dht) = (myIdx, None)" and "GetGossiper (db dht) p = (yourIdx, None)"
    and "Send env p \<lparr>MyIdx = myIdx, YourIdx = yourIdx + 1\<rparr> = (RespGossip \<lparr>Puts = puts\<rparr>, None)"
    and "puts \<noteq> []"
    and "\<forall>m d. fst (ActionReceiver env m d) (''peer:'' @ IDB58Encode p) = d (''peer:'' @ IDB58Encode p)"
    and "sint yourIdx \<le> sint (yourIdx + word_of_nat (length puts))"
    and "gossipWith env dht p = (dht', out)"
  shows "out = Inr None
         \<and> (\<forall>j<length puts. put_logged env (word_of_nat j + yourIdx + 1) (puts ! j) (glog dht'))
         \<and> GetGossiper (db dht') p = (yourIdx + word_of_nat (length puts), None)"
proof -
  let ?key = "''peer:'' @ IDB58Encode p"
  let ?n = "yourIdx + word_of_nat (length puts) :: int64"
  let ?d0 = "(Logf dht ''with %v'' [APeer p])\<lparr>gossips := (gossips dht)(p \<mapsto> True)\<rparr>"
  let ?d1 = "?d0\<lparr>sent := sent ?d0 @ [(p, \<lparr>MyIdx = myIdx, YourIdx = yourIdx + 1\<rparr>)]\<rparr>"
  let ?d3 = "Logf (Logf ?d1 ''received puts: %v'' [APuts puts]) ''running %d puts'' [AInt (word_of_nat (length puts))]"
  obtain ix dht4 where loop: "gossip_loop env yourIdx 0 puts (0, ?d3) = (ix, dht4)"
    by (cases "gossip_loop env yourIdx 0 puts (0, ?d3)")
  have ix: "ix = ?n"
    using gossip_loop_ix [OF assms(5), of env yourIdx 0 0 ?d3] loop by simp
  have key: "db dht4 ?key = db dht ?key"
    using gossip_loop_key [OF assms(6), of yourIdx 0 puts 0 ?d3] loop by (simp add: Logf_def)
  then have cur: "GetGossiper (db dht4) p = (yourIdx, None)"
    using assms(3) by (simp add: GetGossiper_data)
  obtain new where new: "glog dht4 = glog ?d3 @ new"
    "\<forall>j<length puts. put_logged env (word_of_nat (0 + j) + yourIdx + 1) (puts ! j) new"
    using gossip_loop_log [of env yourIdx 0 puts 0 ?d3] loop by auto
  let ?d5 = "(Logf dht4 ''updaing %v to %d'' [APeer p, AInt ?n])\<lparr>db := (db dht4)(?key \<mapsto> Sprintf_d ?n)\<rparr>"
  have upd: "UpdateGossiper dht4 p ?n = (?d5, None)"
    using cur assms(7) by (simp add: UpdateGossiper_db)
  have body: "gossipWith_body env ?d0 p = (?d5, Inr None)"
    using assms(2,3,4,5) loop ix upd
    by (simp add: gossipWith_body_def Logf_def Let_def)
  have res: "dht' = ?d5\<lparr>gossips := (gossips ?d5)(p := None)\<rparr>" "out = Inr None"
    using assms(1,8) body by (simp_all add: gossipWith_def Let_def Logf_def)
  have logs: "set new \<subseteq> set (glog dht')"
    using res(1) new(1) by (auto simp: Logf_def)
  have "\<forall>j<length puts. put_logged env (word_of_nat j + yourIdx + 1) (puts ! j) (glog dht')"
    using new(2) logs put_logged_mono by auto
  moreover have "GetGossiper (db dht') p = (?n, None)"
    using res(1) by (simp add: GetGossiper_data Atoi_Sprintf_d)
  ultimately show ?thesis
    using res(2) by simp
qed

theorem gossipWith_batch_witness:
  "gossips ex_idle (B58Peer ''QmA'') = None
   \<and> GetIdx (db ex_idle) = (0, None)
   \<and> GetGossiper (db ex_idle) (B58Peer ''QmA'') = (0, None)
   \<and> Send ex_Env (B58Peer ''QmA'') \<lparr>MyIdx = 0, YourIdx = 0 + 1\<rparr> = (RespGossip \<lparr>Puts = ex_puts\<rparr>, None)
   \<and> ex_puts \<noteq> []
   \<and> (\<forall>m d. fst (ActionReceiver ex_Env m d) (''peer:'' @ IDB58Encode (B58Peer ''QmA''))
              = d (''peer:'' @ IDB58Encode (B58Peer ''QmA'')))
   \<and> sint (0 :: int64) \<le> sint (0 + word_of_nat (length ex_puts) :: int64)
   \<and> snd (gossipWith ex_Env ex_idle (B58Peer ''QmA'')) = Inr None
   \<and> GetGossiper (db (fst (gossipWith ex_Env ex_idle (B58Peer ''QmA'')))) (B58Peer ''QmA'')
        = (0 + word_of_nat (length ex_puts), None)"
proof -
  have a1: "gossips ex_idle (B58Peer ''QmA'') = None"
    by (simp add: ex_idle_def ex_DHT_def)
  have a2: "GetIdx (db ex_idle) = (0, None)"
    by (simp add: ex_idle_def ex_DHT_def GetIdx_def View_def getIntVal_data)
  have a3: "GetGossiper (db ex_idle) (B58Peer ''QmA'') = (0, None)"
    by (simp add: ex_idle_def ex_DHT_def GetGossiper_data)
  have a4: "Send ex_Env (B58Peer ''QmA'') \<lparr>MyIdx = 0, YourIdx = 0 + 1\<rparr> = (RespGossip \<lparr>Puts = ex_puts\<rparr>, None)"
    by (rule ex_send_QmA)
  have a5: "ex_puts \<noteq> []"
    by (simp add: ex_puts_def)
  have a7: "sint (0 :: int64) \<le> sint (0 + word_of_nat (length ex_puts) :: int64)"
    by (simp add: ex_puts_def)
  show ?thesis
    using a1 a2 a3 a4 a5 ex_receiver_keeps_peer a7
      gossipWith_batch [OF a1 a2 a3 a4 a5 ex_receiver_keeps_peer a7 surjective_pairing]
    by blast
qed


section \<open>The validation hook\<close>







end
